theory Spec2Isabelle
  imports Complex_Main
begin

section \<open>Values read from the page and from the ledger\<close>

text \<open>
  The pricing engine of the repository is the class \<open>PricingStrategy\<close> (strategy.js, the
  second half of src/index.js) together with \<open>saveChangesToLog\<close> of index.js.

  JavaScript numbers are modelled as rationals: every constant of the engine (0.8, 1.2,
  4.5, ...) is read as the decimal fraction it denotes, and NaN and the infinities are
  left out. With that, \<open>Math.round x\<close> is \<open>\<lfloor>x + 1/2\<rfloor>\<close>, which is \<^const>\<open>round\<close>.
\<close>

datatype jsval =
    JNull
  | JUndefined
  | JNum rat
  | JStr string
  | JOther  \<comment> \<open>a boolean, an object, an array\<close>

subsection \<open>The regular expression of \<open>parseOccupancyRate\<close>\<close>

text \<open>
  \<open>rateStr.match(/(\d+(\.\d+)?)%?/)\<close> is not anchored: the match starts at the first
  digit of the string, the first group takes every digit that follows and then, when a
  dot and at least one digit come next, the dot and every digit after it.
  \<open>parseFloat\<close> of that group is the decimal number it spells.
\<close>

definition is_digit :: "char \<Rightarrow> bool" where
  "is_digit c = (c \<in> set ''0123456789'')"

definition digit_val :: "char \<Rightarrow> nat" where
  "digit_val c = of_char c - 48"

definition digits_val :: "string \<Rightarrow> nat" where
  "digits_val ds = foldl (\<lambda>a c. 10 * a + digit_val c) 0 ds"

definition match_group1 :: "string \<Rightarrow> (string \<times> string) option" where
  "match_group1 s =
     (let r = dropWhile (\<lambda>c. \<not> is_digit c) s in
      if r = [] then None
      else
        let ds = takeWhile is_digit r;
            r' = dropWhile is_digit r
        in (case r' of
              c # r'' \<Rightarrow>
                if c = CHR ''.'' \<and> takeWhile is_digit r'' \<noteq> []
                then Some (ds, takeWhile is_digit r'')
                else Some (ds, [])
            | [] \<Rightarrow> Some (ds, [])))"

definition parseFloat_group :: "string \<times> string \<Rightarrow> rat" where
  "parseFloat_group g =
     of_nat (digits_val (fst g)) + of_nat (digits_val (snd g)) / 10 ^ length (snd g)"

definition leading_number :: "string \<Rightarrow> rat option" where
  "leading_number s = map_option parseFloat_group (match_group1 s)"

subsection \<open>\<open>parseOccupancyRate\<close>\<close>

definition parseOccupancyRate :: "jsval \<Rightarrow> rat" where
  "parseOccupancyRate rateStr =
     (if rateStr = JNull \<or> rateStr = JUndefined \<or> rateStr = JStr ''N/A'' \<or> rateStr = JStr ''''
      then 0
      else case rateStr of
             JNum r \<Rightarrow> (if r > 1 then r / 100 else r)
           | JStr s \<Rightarrow> (case leading_number s of None \<Rightarrow> 0 | Some v \<Rightarrow> v / 100)
           | _ \<Rightarrow> 0)"

section \<open>The data model\<close>

text \<open>
  Calendar dates are the strings \<open>YYYY-MM-DD\<close> in the source, compared after
  \<open>new Date(date)\<close>, which reads them as midnight UTC. A date is modelled as its day
  number (days since the epoch); its timestamp is \<open>date_ms\<close>.
\<close>

type_synonym date = int

record price_change =
  before :: rat
  after :: rat

record occupancy =
  occ_7_day :: jsval   \<comment> \<open>key \<open>7_day_occ\<close>\<close>
  occ_30_day :: jsval  \<comment> \<open>key \<open>30_day_occ\<close>\<close>
  occ_60_day :: jsval  \<comment> \<open>key \<open>60_day_occ\<close>\<close>

text \<open>One entry of the ledger's \<open>changes\<close> array. An absent property is \<open>None\<close>.\<close>

record change_entry =
  url :: string
  date :: date
  occupancy :: "occupancy option"
  minPrice :: "price_change option"
  basePrice :: "price_change option"
  error :: "string option"

record occupancy_entry =
  oh_date :: date
  sevenDay :: rat
  thirtyDay :: rat
  sixtyDay :: rat

record price_entry =
  ph_date :: date
  ph_minPrice :: price_change
  ph_basePrice :: price_change

text \<open>
  An element of \<open>adjustmentHistory\<close>. The elements built by \<open>analyzeHistoricalData\<close>
  have no \<open>percentChange\<close> property.
\<close>

record adjustment =
  adj_date :: date
  adj_strategy :: string
  percentChange :: "rat option"
  minPricePercentChange :: rat
  basePricePercentChange :: rat

record property_stats =
  ps_url :: string
  occupancyHistory :: "occupancy_entry list"
  priceHistory :: "price_entry list"
  adjustmentHistory :: "adjustment list"
  lastOscillationDirection :: "rat option"
  lastUpdate :: "date option"

record weights =
  w_sevenDay :: rat
  w_thirtyDay :: rat
  w_sixtyDay :: rat

record thresholds =
  high :: rat
  medium :: rat
  low :: rat
  critical :: rat

record config =
  strategy :: string
  occupancyWeights :: "weights option"
  occupancyThresholds :: "thresholds option"
  increase_percentage :: rat       \<comment> \<open>\<open>adjustments.increase.percentage\<close>\<close>
  decrease_percentage :: rat       \<comment> \<open>\<open>adjustments.decrease.percentage\<close>\<close>
  oscillationPercentage :: rat     \<comment> \<open>\<open>adjustments.hold.oscillationPercentage\<close>\<close>
  logFile :: string

text \<open>The state of a \<open>PricingStrategy\<close> object.\<close>

record engine =
  cfg :: config
  logs :: "change_entry list"
  propertyStats :: "string \<rightharpoonup> property_stats"
  currentChanges :: "change_entry list"

text \<open>
  The engine reads the wall clock with \<open>new Date()\<close>. One call is modelled with one
  reading: the milliseconds since the epoch and the local day of the week
  (\<open>getDay()\<close>, 0 for Sunday). \<open>setDate(getDate() - 7)\<close> is taken as seven times 24
  hours.
\<close>

record clock =
  now_ms :: int
  dayOfWeek :: nat

definition day_ms :: int where
  "day_ms = 86400000"

definition date_ms :: "date \<Rightarrow> int" where
  "date_ms d = d * day_ms"

definition today :: "clock \<Rightarrow> date" where
  \<comment> \<open>\<open>new Date().toISOString().split('T')[0]\<close>\<close>
  "today clk = now_ms clk div day_ms"

definition sevenDaysAgo :: "clock \<Rightarrow> int" where
  "sevenDaysAgo clk = now_ms clk - 7 * day_ms"

definition within_7_days :: "clock \<Rightarrow> date \<Rightarrow> bool" where
  \<comment> \<open>\<open>adjustmentDate >= sevenDaysAgo\<close>\<close>
  "within_7_days clk d = (date_ms d \<ge> sevenDaysAgo clk)"

section \<open>\<open>analyzeHistoricalData\<close>\<close>

definition truthy_error :: "string option \<Rightarrow> bool" where
  "truthy_error e = (case e of None \<Rightarrow> False | Some s \<Rightarrow> s \<noteq> [])"

definition new_stats :: "string \<Rightarrow> property_stats" where
  "new_stats u = \<lparr>ps_url = u, occupancyHistory = [], priceHistory = [],
     adjustmentHistory = [], lastOscillationDirection = None, lastUpdate = None\<rparr>"

definition strategy_of_changes :: "rat \<Rightarrow> rat \<Rightarrow> string" where
  "strategy_of_changes minPct basePct =
     (if minPct > 1/2 \<or> basePct > 1/2 then ''increase''
      else if minPct < - (1/2) \<or> basePct < - (1/2) then ''decrease''
      else ''hold'')"

definition add_occupancy :: "change_entry \<Rightarrow> property_stats \<Rightarrow> property_stats" where
  "add_occupancy entry stats =
     (case occupancy entry of
        None \<Rightarrow> stats
      | Some occ \<Rightarrow>
          stats\<lparr>occupancyHistory := occupancyHistory stats @
            [\<lparr>oh_date = date entry,
              sevenDay = parseOccupancyRate (occ_7_day occ),
              thirtyDay = parseOccupancyRate (occ_30_day occ),
              sixtyDay = parseOccupancyRate (occ_60_day occ)\<rparr>]\<rparr>)"

definition add_prices :: "change_entry \<Rightarrow> property_stats \<Rightarrow> property_stats" where
  "add_prices entry stats =
     (case (minPrice entry, basePrice entry) of
        (Some mp, Some bp) \<Rightarrow>
          let stats1 = stats\<lparr>priceHistory := priceHistory stats @
                 [\<lparr>ph_date = date entry,
                   ph_minPrice = \<lparr>before = before mp, after = after mp\<rparr>,
                   ph_basePrice = \<lparr>before = before bp, after = after bp\<rparr>\<rparr>]\<rparr>
          in if before mp > 0 \<and> before bp > 0 then
               let minPct = ((after mp - before mp) / before mp) * 100;
                   basePct = ((after bp - before bp) / before bp) * 100
               in stats1\<lparr>adjustmentHistory := adjustmentHistory stats1 @
                    [\<lparr>adj_date = date entry,
                      adj_strategy = strategy_of_changes minPct basePct,
                      percentChange = None,
                      minPricePercentChange = minPct,
                      basePricePercentChange = basePct\<rparr>]\<rparr>
             else stats1
      | _ \<Rightarrow> stats)"

definition update_lastUpdate :: "change_entry \<Rightarrow> property_stats \<Rightarrow> property_stats" where
  "update_lastUpdate entry stats =
     (case lastUpdate stats of
        None \<Rightarrow> stats\<lparr>lastUpdate := Some (date entry)\<rparr>
      | Some d \<Rightarrow> if date_ms (date entry) > date_ms d
                  then stats\<lparr>lastUpdate := Some (date entry)\<rparr> else stats)"

definition analyze_entry ::
  "(string \<rightharpoonup> property_stats) \<Rightarrow> change_entry \<Rightarrow> (string \<rightharpoonup> property_stats)" where
  "analyze_entry m entry =
     (if truthy_error (error entry) then m
      else
        let stats = (case m (url entry) of None \<Rightarrow> new_stats (url entry) | Some s \<Rightarrow> s)
        in m(url entry \<mapsto> update_lastUpdate entry (add_prices entry (add_occupancy entry stats))))"

definition analyzeHistoricalData :: "engine \<Rightarrow> engine" where
  "analyzeHistoricalData e = e\<lparr>propertyStats := foldl analyze_entry (propertyStats e) (logs e)\<rparr>"

section \<open>\<open>calculateOccupancyTrend\<close>\<close>

text \<open>
  \<open>Array.prototype.sort\<close> is stable; the comparator orders by date, most recent first.
  \<^const>\<open>sort_key\<close> is stable too.
\<close>

definition calculateOccupancyTrend :: "occupancy_entry list \<Rightarrow> rat" where
  "calculateOccupancyTrend history =
     (if length history < 2 then 0
      else case sort_key (\<lambda>e. - date_ms (oh_date e)) history of
             mostRecent # previous # _ \<Rightarrow> (sevenDay mostRecent - sevenDay previous) * 100
           | _ \<Rightarrow> 0)"

section \<open>\<open>getPropertyStrategy\<close>\<close>

definition default_weights :: weights where
  "default_weights = \<lparr>w_sevenDay = 6/10, w_thirtyDay = 3/10, w_sixtyDay = 1/10\<rparr>"

definition default_thresholds :: thresholds where
  "default_thresholds = \<lparr>high = 85/100, medium = 50/100, low = 40/100, critical = 20/100\<rparr>"

definition the_weights :: "config \<Rightarrow> weights" where
  "the_weights c = (case occupancyWeights c of None \<Rightarrow> default_weights | Some w \<Rightarrow> w)"

definition the_thresholds :: "config \<Rightarrow> thresholds" where
  "the_thresholds c = (case occupancyThresholds c of None \<Rightarrow> default_thresholds | Some t \<Rightarrow> t)"

definition weightedOcc :: "weights \<Rightarrow> rat \<Rightarrow> rat \<Rightarrow> rat \<Rightarrow> rat" where
  "weightedOcc w o7 o30 o60 = o7 * w_sevenDay w + o30 * w_thirtyDay w + o60 * w_sixtyDay w"

text \<open>The counters of the loop over the last seven adjustments.\<close>

record momentum =
  consecutiveIncreases :: nat
  consecutiveDecreases :: nat
  cumulativeIncrease :: rat
  cumulativeDecrease :: rat
  sevenDayIncrease :: rat
  sevenDayDecrease :: rat

definition momentum0 :: momentum where
  "momentum0 = \<lparr>consecutiveIncreases = 0, consecutiveDecreases = 0, cumulativeIncrease = 0,
     cumulativeDecrease = 0, sevenDayIncrease = 0, sevenDayDecrease = 0\<rparr>"

definition add_seven_day :: "clock \<Rightarrow> adjustment \<Rightarrow> momentum \<Rightarrow> momentum" where
  "add_seven_day clk a m =
     (if within_7_days clk (adj_date a) then
        (if basePricePercentChange a > 0
         then m\<lparr>sevenDayIncrease := sevenDayIncrease m + basePricePercentChange a\<rparr>
         else if basePricePercentChange a < 0
         then m\<lparr>sevenDayDecrease := sevenDayDecrease m + \<bar>basePricePercentChange a\<bar>\<rparr>
         else m)
      else m)"

text \<open>
  The loop \<open>for (i = recentAdjustments.length - 1; i >= 0; i--)\<close>: the list given here is
  \<open>recentAdjustments\<close> reversed, and every \<open>break\<close> ends the recursion.
\<close>

fun walk_back :: "clock \<Rightarrow> adjustment list \<Rightarrow> momentum \<Rightarrow> momentum" where
  "walk_back clk [] m = m"
| "walk_back clk (a # rest) m =
     (let m1 = add_seven_day clk a m in
      if adj_strategy a = ''increase'' \<and>
         (minPricePercentChange a > 0 \<or> basePricePercentChange a > 0)
      then
        let m2 = m1\<lparr>consecutiveIncreases := consecutiveIncreases m1 + 1,
                    cumulativeIncrease := cumulativeIncrease m1 +
                      max (minPricePercentChange a) (basePricePercentChange a)\<rparr>
        in if consecutiveDecreases m2 > 0 then m2 else walk_back clk rest m2
      else if adj_strategy a = ''decrease'' \<and>
         (minPricePercentChange a < 0 \<or> basePricePercentChange a < 0)
      then
        let m2 = m1\<lparr>consecutiveDecreases := consecutiveDecreases m1 + 1,
                    cumulativeDecrease := cumulativeDecrease m1 +
                      \<bar>min (minPricePercentChange a) (basePricePercentChange a)\<bar>\<rparr>
        in if consecutiveIncreases m2 > 0 then m2 else walk_back clk rest m2
      else m1)"

definition recentAdjustments :: "adjustment list \<Rightarrow> adjustment list" where
  \<comment> \<open>\<open>adjustmentHistory.slice(-7)\<close>\<close>
  "recentAdjustments h = drop (length h - 7) h"

definition forceHold :: "clock \<Rightarrow> engine \<Rightarrow> string \<Rightarrow> bool" where
  "forceHold clk e propertyUrl =
     (case propertyStats e propertyUrl of
        None \<Rightarrow> False
      | Some stats \<Rightarrow>
          if length (adjustmentHistory stats) > 0 then
            let m = walk_back clk (rev (recentAdjustments (adjustmentHistory stats))) momentum0
            in cumulativeIncrease m \<ge> 3 \<or> sevenDayIncrease m \<ge> 4 \<or> consecutiveDecreases m \<ge> 3
          else False)"

definition getPropertyStrategy :: "clock \<Rightarrow> engine \<Rightarrow> string \<Rightarrow> occupancy \<Rightarrow> string" where
  "getPropertyStrategy clk e propertyUrl currentOccupancy =
     (let current7DayOcc = parseOccupancyRate (occ_7_day currentOccupancy);
          current30DayOcc = parseOccupancyRate (occ_30_day currentOccupancy);
          current60DayOcc = parseOccupancyRate (occ_60_day currentOccupancy);
          ths = the_thresholds (cfg e);
          wOcc = weightedOcc (the_weights (cfg e)) current7DayOcc current30DayOcc current60DayOcc
      in
        if forceHold clk e propertyUrl then ''hold''
        else if current7DayOcc \<ge> high ths then ''increase''
        else if wOcc < low ths \<and> current7DayOcc < medium ths then ''decrease''
        else case propertyStats e propertyUrl of
               Some stats \<Rightarrow>
                 let occupancyTrend = calculateOccupancyTrend (occupancyHistory stats) in
                 if occupancyTrend > 5 \<or> current7DayOcc > 7/10 then ''increase''
                 else if occupancyTrend < -3 \<or> wOcc < 45/100 then ''decrease''
                 else ''hold''
             | None \<Rightarrow> strategy (cfg e))"

section \<open>\<open>calculateAdjustedPrice\<close>\<close>

definition changeToUse :: "string \<Rightarrow> adjustment \<Rightarrow> rat" where
  "changeToUse priceType a =
     (if priceType = ''min'' then minPricePercentChange a else basePricePercentChange a)"

definition trailing_increase :: "clock \<Rightarrow> string \<Rightarrow> adjustment list \<Rightarrow> rat" where
  \<comment> \<open>the loop \<open>for (const adjustment of stats.adjustmentHistory)\<close> summing \<open>sevenDayIncrease\<close>\<close>
  "trailing_increase clk priceType h =
     foldl (\<lambda>acc a. if within_7_days clk (adj_date a) \<and> changeToUse priceType a > 0
                     then acc + changeToUse priceType a else acc) 0 h"

definition proposed_increase :: "config \<Rightarrow> thresholds \<Rightarrow> rat \<Rightarrow> rat" where
  "proposed_increase c ths sevenDayOcc =
     (if sevenDayOcc \<ge> 95/100 then increase_percentage c * (15/10)
      else if sevenDayOcc \<ge> high ths then increase_percentage c * (12/10)
      else increase_percentage c)"

definition increase_branch :: "config \<Rightarrow> thresholds \<Rightarrow> rat \<Rightarrow> rat \<Rightarrow> rat" where
  "increase_branch c ths sevenDayOcc sevenDayInc =
     (let adj = proposed_increase c ths sevenDayOcc
      in if sevenDayInc + adj > 5 then
           let newAdjustment = max 0 (5 - sevenDayInc)
           in if newAdjustment < 1 then -1 else newAdjustment
         else adj)"

definition decrease_branch :: "config \<Rightarrow> thresholds \<Rightarrow> rat \<Rightarrow> rat \<Rightarrow> rat \<Rightarrow> rat" where
  "decrease_branch c ths wOcc sevenDayOcc thirtyDayOcc =
     (if wOcc < critical ths then - decrease_percentage c * (15/10)
      else if sevenDayOcc < 30/100 \<and> thirtyDayOcc < low ths then - decrease_percentage c * (12/10)
      else - decrease_percentage c)"

definition oscillationDirection :: "rat option \<Rightarrow> rat" where
  "oscillationDirection lastOsc =
     (case lastOsc of None \<Rightarrow> 1 | Some l \<Rightarrow> if l > 0 then -1 else 1)"

definition raw_oscillation :: "config \<Rightarrow> nat \<Rightarrow> rat option \<Rightarrow> rat" where
  \<comment> \<open>\<open>oscillationDirection * oscillationMagnitude\<close>\<close>
  "raw_oscillation c dow lastOsc =
     (let baseOsc = oscillationPercentage c;
          isWeekend = (dow = 0 \<or> dow = 6);
          oscillationMagnitude =
            (if isWeekend
             then (if oscillationDirection lastOsc > 0 then baseOsc * (12/10) else baseOsc * (8/10))
             else baseOsc)
      in oscillationDirection lastOsc * oscillationMagnitude)"

definition hold_cap_fires :: "rat \<Rightarrow> rat \<Rightarrow> bool" where
  \<comment> \<open>\<open>adjustmentPercentage > 0 && sevenDayIncrease + adjustmentPercentage > 4.5\<close>\<close>
  "hold_cap_fires adj sevenDayInc = (adj > 0 \<and> sevenDayInc + adj > 45/10)"

definition oscillation :: "config \<Rightarrow> nat \<Rightarrow> rat option \<Rightarrow> rat \<Rightarrow> rat" where
  "oscillation c dow lastOsc sevenDayInc =
     (if hold_cap_fires (raw_oscillation c dow lastOsc) sevenDayInc then -1
      else raw_oscillation c dow lastOsc)"

definition hold_high_branch :: "config \<Rightarrow> rat \<Rightarrow> rat" where
  "hold_high_branch c sevenDayInc =
     (let adj = increase_percentage c * (7/10)
      in if sevenDayInc + adj > 5 then max 0 (5 - sevenDayInc) else adj)"

text \<open>
  The \<open>switch (strategy)\<close>: \<open>None\<close> is the \<open>default\<close> case, which returns at once; otherwise
  the adjustment percentage and whether the oscillation branch of \<open>hold\<close> was taken.
\<close>

definition switch_strategy ::
  "config \<Rightarrow> nat \<Rightarrow> string \<Rightarrow> rat \<Rightarrow> rat \<Rightarrow> rat \<Rightarrow> rat \<Rightarrow> rat option \<Rightarrow> (rat \<times> bool) option" where
  "switch_strategy c dow strat sevenDayOcc thirtyDayOcc wOcc sevenDayInc lastOsc =
     (let ths = the_thresholds c in
      if strat = ''increase'' then Some (increase_branch c ths sevenDayOcc sevenDayInc, False)
      else if strat = ''decrease'' then Some (decrease_branch c ths wOcc sevenDayOcc thirtyDayOcc, False)
      else if strat = ''hold'' then
        (if wOcc \<ge> low ths \<and> wOcc \<le> high ths then Some (oscillation c dow lastOsc sevenDayInc, True)
         else if wOcc < low ths then Some (- decrease_percentage c * (7/10), False)
         else Some (hold_high_branch c sevenDayInc, False))
      else None)"

definition set_price :: "string \<Rightarrow> rat \<Rightarrow> rat \<Rightarrow> change_entry \<Rightarrow> change_entry" where
  "set_price priceType currentPrice adjustedPrice ch =
     (if priceType = ''min'' then ch\<lparr>minPrice := Some \<lparr>before = currentPrice, after = adjustedPrice\<rparr>\<rparr>
      else if priceType = ''base'' then ch\<lparr>basePrice := Some \<lparr>before = currentPrice, after = adjustedPrice\<rparr>\<rparr>
      else ch)"

text \<open>
  \<open>currentChanges.find(change => change.url === propertyUrl)\<close> and the update of the
  entry found, or the \<open>push\<close> of a new entry.
\<close>

fun upsert_change ::
  "change_entry \<Rightarrow> string \<Rightarrow> rat \<Rightarrow> rat \<Rightarrow> change_entry list \<Rightarrow> change_entry list" where
  "upsert_change fresh priceType currentPrice adjustedPrice [] =
     [set_price priceType currentPrice adjustedPrice fresh]"
| "upsert_change fresh priceType currentPrice adjustedPrice (ch # chs) =
     (if url ch = url fresh then set_price priceType currentPrice adjustedPrice ch # chs
      else ch # upsert_change fresh priceType currentPrice adjustedPrice chs)"

definition store_adjustment ::
  "clock \<Rightarrow> engine \<Rightarrow> string \<Rightarrow> string \<Rightarrow> rat \<Rightarrow> string \<Rightarrow> rat \<Rightarrow> rat \<Rightarrow> occupancy \<Rightarrow> engine" where
  "store_adjustment clk e propertyUrl strat adjustmentPercentage priceType currentPrice
       adjustedPrice currentOccupancy =
     (case propertyStats e propertyUrl of
        None \<Rightarrow> e
      | Some stats \<Rightarrow>
          let stats' = stats\<lparr>adjustmentHistory := adjustmentHistory stats @
                 [\<lparr>adj_date = today clk,
                   adj_strategy = strat,
                   percentChange = Some adjustmentPercentage,
                   minPricePercentChange = (if priceType = ''min'' then adjustmentPercentage else 0),
                   basePricePercentChange = (if priceType = ''base'' then adjustmentPercentage else 0)\<rparr>]\<rparr>;
              fresh = \<lparr>url = propertyUrl, date = today clk, occupancy = Some currentOccupancy,
                       minPrice = None, basePrice = None, error = None\<rparr>
          in e\<lparr>propertyStats := (propertyStats e)(propertyUrl \<mapsto> stats'),
               currentChanges := upsert_change fresh priceType currentPrice adjustedPrice
                                   (currentChanges e)\<rparr>)"

definition store_oscillation :: "engine \<Rightarrow> string \<Rightarrow> rat \<Rightarrow> engine" where
  "store_oscillation e propertyUrl adjustmentPercentage =
     (case propertyStats e propertyUrl of
        None \<Rightarrow> e
      | Some stats \<Rightarrow>
          e\<lparr>propertyStats := (propertyStats e)(propertyUrl \<mapsto>
               stats\<lparr>lastOscillationDirection := Some adjustmentPercentage\<rparr>)\<rparr>)"

definition minAllowedPrice :: "price_entry \<Rightarrow> rat" where
  "minAllowedPrice recentPrices = of_int (round (after (ph_basePrice recentPrices) * (8/10)))"

definition floor_rule :: "engine \<Rightarrow> string \<Rightarrow> string \<Rightarrow> rat \<Rightarrow> rat" where
  "floor_rule e propertyUrl priceType adjustedPrice =
     (if priceType = ''min'' then
        (case propertyStats e propertyUrl of
           None \<Rightarrow> adjustedPrice
         | Some stats \<Rightarrow>
             (case priceHistory stats of
                [] \<Rightarrow> adjustedPrice
              | recentPrices # _ \<Rightarrow>
                  if adjustedPrice > minAllowedPrice recentPrices
                  then minAllowedPrice recentPrices else adjustedPrice))
      else adjustedPrice)"

definition adjusted :: "rat \<Rightarrow> rat \<Rightarrow> rat" where
  \<comment> \<open>\<open>Math.round(currentPrice + currentPrice * (adjustmentPercentage / 100))\<close>\<close>
  "adjusted currentPrice adjustmentPercentage =
     of_int (round (currentPrice + currentPrice * (adjustmentPercentage / 100)))"

definition calculateAdjustedPrice ::
  "clock \<Rightarrow> engine \<Rightarrow> string \<Rightarrow> rat \<Rightarrow> occupancy \<Rightarrow> string \<Rightarrow> rat \<times> engine" where
  "calculateAdjustedPrice clk e propertyUrl currentPrice currentOccupancy priceType =
     (let strat = getPropertyStrategy clk e propertyUrl currentOccupancy;
          sevenDayOcc = parseOccupancyRate (occ_7_day currentOccupancy);
          thirtyDayOcc = parseOccupancyRate (occ_30_day currentOccupancy);
          sixtyDayOcc = parseOccupancyRate (occ_60_day currentOccupancy);
          wOcc = weightedOcc (the_weights (cfg e)) sevenDayOcc thirtyDayOcc sixtyDayOcc;
          lastOsc = (case propertyStats e propertyUrl of
                       None \<Rightarrow> None | Some stats \<Rightarrow> lastOscillationDirection stats);
          sevenDayInc = (case propertyStats e propertyUrl of
                           None \<Rightarrow> 0
                         | Some stats \<Rightarrow> trailing_increase clk priceType (adjustmentHistory stats))
      in case switch_strategy (cfg e) (dayOfWeek clk) strat sevenDayOcc thirtyDayOcc wOcc
                sevenDayInc lastOsc of
           None \<Rightarrow> (currentPrice, e)
         | Some (adjustmentPercentage, osc) \<Rightarrow>
             let e1 = (if osc then store_oscillation e propertyUrl adjustmentPercentage else e);
                 adjustedPrice = adjusted currentPrice adjustmentPercentage;
                 e2 = store_adjustment clk e1 propertyUrl strat adjustmentPercentage priceType
                        currentPrice adjustedPrice currentOccupancy
             in (floor_rule e2 propertyUrl priceType adjustedPrice, e2))"

section \<open>The ledger file\<close>

text \<open>
  A ledger file holds JSON: one run \<open>{lastRun, changes}\<close>, an array of runs, or text that
  \<open>JSON.parse\<close> rejects. \<open>changes\<close> is \<open>None\<close> when the property is missing or is not an
  array. The files the engine writes are the log file and the backup
  \<open>${logFile}.backup-${today}\<close>. A write to a path fails when \<open>write_fails\<close> says so.
\<close>

record run_log =
  lastRun :: date
  changes :: "change_entry list option"

datatype file_content = SingleRun run_log | RunArray "run_log list" | Unparsable

datatype path = LogFile string | Backup string date

datatype io_error = WriteFailed path

record filesystem =
  files :: "path \<rightharpoonup> file_content"
  write_fails :: "path \<Rightarrow> bool"

definition writeFile :: "filesystem \<Rightarrow> path \<Rightarrow> file_content \<Rightarrow> io_error + filesystem" where
  "writeFile fsys p content =
     (if write_fails fsys p then Inl (WriteFailed p)
      else Inr (fsys\<lparr>files := (files fsys)(p \<mapsto> content)\<rparr>))"

definition changes_array :: "run_log \<Rightarrow> change_entry list" where
  \<comment> \<open>\<open>Array.isArray(run.changes) ? run.changes : []\<close>\<close>
  "changes_array run = (case changes run of None \<Rightarrow> [] | Some cs \<Rightarrow> cs)"

subsection \<open>\<open>initialize\<close>\<close>

definition initialize :: "config \<Rightarrow> filesystem \<Rightarrow> engine" where
  "initialize c fsys =
     (let e0 = \<lparr>cfg = c, logs = [], propertyStats = Map.empty, currentChanges = []\<rparr> in
      case files fsys (LogFile (logFile c)) of
        None \<Rightarrow> e0
      | Some Unparsable \<Rightarrow> e0
      | Some (RunArray runs) \<Rightarrow>
          analyzeHistoricalData (e0\<lparr>logs := concat (map changes_array runs)\<rparr>)
      | Some (SingleRun run) \<Rightarrow>
          analyzeHistoricalData (e0\<lparr>logs := changes_array run\<rparr>))"

subsection \<open>\<open>saveChangesToLog\<close> (index.js)\<close>

definition maxHistoryEntries :: nat where
  "maxHistoryEntries = 1000"

definition trim_history :: "change_entry list \<Rightarrow> change_entry list" where
  "trim_history cs = (if length cs > maxHistoryEntries then take maxHistoryEntries cs else cs)"

text \<open>
  When the file holds an array of runs, \<open>existingData\<close> is that array: \<open>lastRun\<close> and
  \<open>changes\<close> become properties of the array object, and \<open>JSON.stringify\<close> writes the
  elements of an array only.
\<close>

definition log_content :: "date \<Rightarrow> file_content option \<Rightarrow> change_entry list \<Rightarrow> file_content" where
  "log_content tod existing newChanges =
     (case existing of
        Some (RunArray runs) \<Rightarrow> RunArray runs
      | Some (SingleRun run) \<Rightarrow>
          SingleRun \<lparr>lastRun = tod, changes = Some (trim_history (newChanges @ changes_array run))\<rparr>
      | _ \<Rightarrow> SingleRun \<lparr>lastRun = tod, changes = Some (trim_history (newChanges @ []))\<rparr>)"

definition saveChangesToLog ::
  "date \<Rightarrow> filesystem \<Rightarrow> string \<Rightarrow> change_entry list \<Rightarrow> filesystem" where
  "saveChangesToLog tod fsys logFileName newChanges =
     (case writeFile fsys (LogFile logFileName)
             (log_content tod (files fsys (LogFile logFileName)) newChanges) of
        Inr fsys' \<Rightarrow> fsys'
      | Inl err \<Rightarrow>
          (case writeFile fsys (Backup logFileName tod)
                  (SingleRun \<lparr>lastRun = tod, changes = Some newChanges\<rparr>) of
             Inr fsys' \<Rightarrow> fsys'
           | Inl backupError \<Rightarrow> fsys))"

subsection \<open>\<open>saveChanges\<close> (strategy.js)\<close>

definition existing_run :: "date \<Rightarrow> file_content option \<Rightarrow> run_log" where
  "existing_run tod existing =
     (case existing of
        Some (SingleRun run) \<Rightarrow> run
      | Some (RunArray (run # _)) \<Rightarrow> run
      | _ \<Rightarrow> \<lparr>lastRun = tod, changes = Some []\<rparr>)"

definition saveChanges :: "clock \<Rightarrow> filesystem \<Rightarrow> engine \<Rightarrow> filesystem \<times> engine" where
  "saveChanges clk fsys e =
     (if logFile (cfg e) = [] then (fsys, e)
      else if currentChanges e = [] then (fsys, e)
      else
        let existingData = existing_run (today clk) (files fsys (LogFile (logFile (cfg e))));
            content = SingleRun \<lparr>lastRun = today clk,
                        changes = Some (currentChanges e @ changes_array existingData)\<rparr>
        in case writeFile fsys (LogFile (logFile (cfg e))) content of
             Inl err \<Rightarrow> (fsys, e)
           | Inr fsys' \<Rightarrow> (fsys', e\<lparr>currentChanges := []\<rparr>))"

section \<open>Vocabulary of the properties\<close>

text \<open>
  A decrease adjustment, as the loop of \<open>getPropertyStrategy\<close> recognises it: the
  strategy recorded is \<open>decrease\<close> and the min or the base price went down.
\<close>

definition is_decrease :: "adjustment \<Rightarrow> bool" where
  "is_decrease a = (adj_strategy a = ''decrease'' \<and>
     (minPricePercentChange a < 0 \<or> basePricePercentChange a < 0))"

text \<open>
  The price records of a property in a list of ledger entries, in the order of the list:
  the entries with no error that carry both a min and a base price.
\<close>

definition price_record :: "change_entry \<Rightarrow> price_entry option" where
  "price_record entry =
     (case (minPrice entry, basePrice entry) of
        (Some mp, Some bp) \<Rightarrow> Some \<lparr>ph_date = date entry, ph_minPrice = mp, ph_basePrice = bp\<rparr>
      | _ \<Rightarrow> None)"

definition ledger_prices :: "string \<Rightarrow> change_entry list \<Rightarrow> price_entry list" where
  "ledger_prices u entries =
     List.map_filter (\<lambda>entry. if \<not> truthy_error (error entry) \<and> url entry = u
                               then price_record entry else None) entries"

definition priceHistory_of :: "(string \<rightharpoonup> property_stats) \<Rightarrow> string \<Rightarrow> price_entry list" where
  "priceHistory_of m u = (case m u of None \<Rightarrow> [] | Some stats \<Rightarrow> priceHistory stats)"

subsection \<open>Concrete inputs\<close>

text \<open>The configuration of the Readme, a Friday, and a property with one ledger entry.\<close>

definition ex_config :: config where
  "ex_config = \<lparr>strategy = ''hold'', occupancyWeights = None, occupancyThresholds = None,
     increase_percentage = 2, decrease_percentage = 2, oscillationPercentage = 1,
     logFile = ''pricelabs_changes.json''\<rparr>"

definition ex_clock :: clock where
  "ex_clock = \<lparr>now_ms = 20000 * 86400000 + 3600000, dayOfWeek = 5\<rparr>"

definition ex_occ :: "rat \<Rightarrow> rat \<Rightarrow> rat \<Rightarrow> occupancy" where
  "ex_occ a b c = \<lparr>occ_7_day = JNum a, occ_30_day = JNum b, occ_60_day = JNum c\<rparr>"

definition ex_prices :: price_entry where
  "ex_prices = \<lparr>ph_date = 19990, ph_minPrice = \<lparr>before = 90, after = 90\<rparr>,
     ph_basePrice = \<lparr>before = 100, after = 100\<rparr>\<rparr>"

definition ex_stats :: property_stats where
  "ex_stats = \<lparr>ps_url = ''p'', occupancyHistory = [], priceHistory = [ex_prices],
     adjustmentHistory = [], lastOscillationDirection = None, lastUpdate = Some 19990\<rparr>"

definition ex_engine :: engine where
  "ex_engine = \<lparr>cfg = ex_config, logs = [], propertyStats = [''p'' \<mapsto> ex_stats],
     currentChanges = []\<rparr>"

definition cold_engine :: engine where
  "cold_engine = \<lparr>cfg = ex_config, logs = [], propertyStats = Map.empty, currentChanges = []\<rparr>"

definition ex_decrease :: "date \<Rightarrow> adjustment" where
  "ex_decrease d = \<lparr>adj_date = d, adj_strategy = ''decrease'', percentChange = Some (-2),
     minPricePercentChange = 0, basePricePercentChange = -2\<rparr>"

definition whiplash_stats :: property_stats where
  "whiplash_stats = ex_stats\<lparr>adjustmentHistory :=
     [ex_decrease 19990, ex_decrease 19991, ex_decrease 19992]\<rparr>"

definition whiplash_engine :: engine where
  "whiplash_engine = ex_engine\<lparr>propertyStats := [''p'' \<mapsto> whiplash_stats]\<rparr>"

subsection \<open>Sequences of calls\<close>

text \<open>
  The value of the \<open>switch\<close> inside \<open>calculateAdjustedPrice\<close>: the adjustment percentage
  the call computes, and whether it is a hold oscillation.
\<close>

definition computed_percentage ::
  "clock \<Rightarrow> engine \<Rightarrow> string \<Rightarrow> occupancy \<Rightarrow> string \<Rightarrow> (rat \<times> bool) option" where
  "computed_percentage clk e propertyUrl occ priceType =
     switch_strategy (cfg e) (dayOfWeek clk) (getPropertyStrategy clk e propertyUrl occ)
       (parseOccupancyRate (occ_7_day occ)) (parseOccupancyRate (occ_30_day occ))
       (weightedOcc (the_weights (cfg e)) (parseOccupancyRate (occ_7_day occ))
          (parseOccupancyRate (occ_30_day occ)) (parseOccupancyRate (occ_60_day occ)))
       (case propertyStats e propertyUrl of
          None \<Rightarrow> 0
        | Some stats \<Rightarrow> trailing_increase clk priceType (adjustmentHistory stats))
       (case propertyStats e propertyUrl of
          None \<Rightarrow> None | Some stats \<Rightarrow> lastOscillationDirection stats)"




text \<open>
  A call takes the oscillation branch when the strategy is \<open>hold\<close> and the weighted
  occupancy is inside \<open>[low, high]\<close>; the 4.5% cap interferes when its test succeeds.
\<close>

definition takes_oscillation_branch :: "clock \<Rightarrow> engine \<Rightarrow> string \<Rightarrow> occupancy \<Rightarrow> bool" where
  "takes_oscillation_branch clk e propertyUrl occ =
     (let wOcc = weightedOcc (the_weights (cfg e)) (parseOccupancyRate (occ_7_day occ))
                   (parseOccupancyRate (occ_30_day occ)) (parseOccupancyRate (occ_60_day occ))
      in getPropertyStrategy clk e propertyUrl occ = ''hold''
         \<and> low (the_thresholds (cfg e)) \<le> wOcc \<and> wOcc \<le> high (the_thresholds (cfg e)))"

definition hold_cap_interferes :: "clock \<Rightarrow> engine \<Rightarrow> string \<Rightarrow> string \<Rightarrow> bool" where
  "hold_cap_interferes clk e propertyUrl priceType =
     (case propertyStats e propertyUrl of
        None \<Rightarrow> hold_cap_fires (raw_oscillation (cfg e) (dayOfWeek clk) None) 0
      | Some stats \<Rightarrow>
          hold_cap_fires (raw_oscillation (cfg e) (dayOfWeek clk) (lastOscillationDirection stats))
            (trailing_increase clk priceType (adjustmentHistory stats)))"

definition last_percentChange :: "engine \<Rightarrow> string \<Rightarrow> rat option" where
  "last_percentChange e propertyUrl =
     (case propertyStats e propertyUrl of
        None \<Rightarrow> None
      | Some stats \<Rightarrow>
          if adjustmentHistory stats = [] then None
          else percentChange (last (adjustmentHistory stats)))"

text \<open>The record that \<open>calculateAdjustedPrice\<close> pushes on \<open>adjustmentHistory\<close>.\<close>

definition new_record :: "clock \<Rightarrow> string \<Rightarrow> rat \<Rightarrow> string \<Rightarrow> adjustment" where
  "new_record clk strat pct priceType =
     \<lparr>adj_date = today clk, adj_strategy = strat, percentChange = Some pct,
      minPricePercentChange = (if priceType = ''min'' then pct else 0),
      basePricePercentChange = (if priceType = ''base'' then pct else 0)\<rparr>"

definition high_occ :: occupancy where
  "high_occ = ex_occ (9/10) (8/10) (75/100)"

definition hold_occ :: occupancy where
  "hold_occ = ex_occ (6/10) (6/10) (6/10)"


definition osc_engine :: engine where
  "osc_engine = snd (calculateAdjustedPrice ex_clock ex_engine ''p'' 70 hold_occ ''min'')"

subsection \<open>Ledgers\<close>

definition ex_change :: change_entry where
  "ex_change = \<lparr>url = ''p'', date = 19990, occupancy = Some (ex_occ (9/10) (8/10) (75/100)),
     minPrice = Some \<lparr>before = 90, after = 90\<rparr>, basePrice = Some \<lparr>before = 100, after = 100\<rparr>,
     error = None\<rparr>"

definition full_ledger :: file_content where
  "full_ledger = SingleRun \<lparr>lastRun = 19990, changes = Some (replicate 1000 ex_change)\<rparr>"

definition full_fs :: filesystem where
  "full_fs = \<lparr>files = [LogFile ''pricelabs_changes.json'' \<mapsto> full_ledger],
     write_fails = (\<lambda>p. False)\<rparr>"

definition failing_fs :: filesystem where
  "failing_fs = \<lparr>files = [LogFile ''pricelabs_changes.json'' \<mapsto> full_ledger],
     write_fails = (\<lambda>p. p = LogFile ''pricelabs_changes.json'')\<rparr>"

definition busy_engine :: engine where
  "busy_engine = ex_engine\<lparr>currentChanges := [ex_change\<lparr>date := 20000\<rparr>]\<rparr>"

section \<open>Evaluation helpers\<close>

lemma floor_rat_numeral: "\<lfloor>numeral a / numeral b :: rat\<rfloor> = numeral a div numeral b"
  by (metis floor_divide_of_int_eq of_int_numeral)

lemma floor_rat_neg_numeral: "\<lfloor>- (numeral a / numeral b) :: rat\<rfloor> = - numeral a div numeral b"
  by (metis divide_minus_left floor_divide_of_int_eq of_int_numeral of_int_minus)

lemmas round_eval = round_def floor_rat_numeral floor_rat_neg_numeral

lemmas parse_defs = parseOccupancyRate_def leading_number_def match_group1_def is_digit_def
  parseFloat_group_def digits_val_def digit_val_def

lemmas ex_defs = ex_config_def ex_clock_def ex_occ_def ex_prices_def ex_stats_def ex_engine_def
  cold_engine_def ex_decrease_def whiplash_stats_def whiplash_engine_def high_occ_def hold_occ_def

lemmas calc_defs = calculateAdjustedPrice_def getPropertyStrategy_def forceHold_def
  switch_strategy_def proposed_increase_def increase_branch_def decrease_branch_def oscillation_def raw_oscillation_def
  oscillationDirection_def hold_cap_fires_def hold_high_branch_def
  the_weights_def the_thresholds_def default_weights_def default_thresholds_def weightedOcc_def
  parseOccupancyRate_def trailing_increase_def store_adjustment_def store_oscillation_def
  floor_rule_def minAllowedPrice_def adjusted_def set_price_def today_def day_ms_def
  within_7_days_def sevenDaysAgo_def date_ms_def changeToUse_def calculateOccupancyTrend_def
  recentAdjustments_def momentum0_def add_seven_day_def computed_percentage_def
  takes_oscillation_branch_def hold_cap_interferes_def last_percentChange_def new_record_def

section \<open>The occupancy normalizer\<close>

lemma leading_number_nonneg: "leading_number s = Some v \<Longrightarrow> 0 \<le> v"
  by (auto simp: leading_number_def parseFloat_group_def)

lemma leading_number_no_digit: "leading_number ''N/A'' = None" "leading_number [] = None"
  by (simp_all add: parse_defs)

text \<open>
  Claim C3, as amended. \<open>parseOccupancyRate\<close> returns a decimal in \<open>[0,1]\<close> for every
  number between 0 and 100 and for every string whose first numeric token is at most 100
  (and for \<open>null\<close>, \<open>undefined\<close>, the empty string, \<open>N/A\<close> and every other value, which
  give 0). The five values of the specification hold: \<open>N/A\<close> and \<open>null\<close> give 0, and
  \<open>"85%"\<close>, 0.85 and 85 give 0.85. A string with no digit and a value that is neither a
  number nor a string give 0.
\<close>

theorem parseOccupancyRate_range:
  "((\<forall>r. rateStr = JNum r \<longrightarrow> 0 \<le> r \<and> r \<le> 100) \<and>
    (\<forall>s v. rateStr = JStr s \<longrightarrow> leading_number s = Some v \<longrightarrow> v \<le> 100)
    \<longrightarrow> 0 \<le> parseOccupancyRate rateStr \<and> parseOccupancyRate rateStr \<le> 1)
   \<and> parseOccupancyRate (JStr ''N/A'') = 0
   \<and> parseOccupancyRate JNull = 0
   \<and> parseOccupancyRate JUndefined = 0
   \<and> parseOccupancyRate (JStr '''') = 0
   \<and> parseOccupancyRate (JStr ''85%'') = 85/100
   \<and> parseOccupancyRate (JNum (85/100)) = 85/100
   \<and> parseOccupancyRate (JNum 85) = 85/100
   \<and> (\<forall>s. leading_number s = None \<longrightarrow> parseOccupancyRate (JStr s) = 0)
   \<and> parseOccupancyRate JOther = 0"
proof -
  have range: "0 \<le> parseOccupancyRate rateStr \<and> parseOccupancyRate rateStr \<le> 1"
    if num: "\<forall>r. rateStr = JNum r \<longrightarrow> 0 \<le> r \<and> r \<le> 100"
    and str: "\<forall>s v. rateStr = JStr s \<longrightarrow> leading_number s = Some v \<longrightarrow> v \<le> 100"
  proof (cases rateStr)
    case (JNum r)
    with num have "0 \<le> r" "r \<le> 100" by auto
    with JNum show ?thesis by (auto simp: parseOccupancyRate_def)
  next
    case (JStr s)
    show ?thesis
    proof (cases "leading_number s")
      case None
      with JStr show ?thesis by (simp add: parseOccupancyRate_def)
    next
      case (Some v)
      with str JStr have "v \<le> 100" by simp
      moreover from Some have "0 \<le> v" by (rule leading_number_nonneg)
      ultimately show ?thesis using JStr Some by (simp add: parseOccupancyRate_def)
    qed
  qed (simp_all add: parseOccupancyRate_def)
  have vals: "parseOccupancyRate (JStr ''85%'') = 85/100"
    by (simp add: parse_defs)
  have none: "\<forall>s. leading_number s = None \<longrightarrow> parseOccupancyRate (JStr s) = 0"
    by (simp add: parseOccupancyRate_def)
  show ?thesis using range vals none by (simp add: parseOccupancyRate_def)
qed

theorem parseOccupancyRate_range_witness:
  "leading_number ''42.5%'' = Some (425/10) \<and> (425/10 :: rat) \<le> 100
   \<and> 0 \<le> parseOccupancyRate (JStr ''42.5%'') \<and> parseOccupancyRate (JStr ''42.5%'') \<le> 1
   \<and> parseOccupancyRate (JStr ''42.5%'') = 425/1000
   \<and> leading_number ''n/a'' = None \<and> parseOccupancyRate (JStr ''n/a'') = 0"
proof -
  have ln: "leading_number ''42.5%'' = Some (425/10)"
    by (simp add: parse_defs)
  have no: "leading_number ''n/a'' = None"
    by (simp add: parse_defs)
  have "0 \<le> parseOccupancyRate (JStr ''42.5%'') \<and> parseOccupancyRate (JStr ''42.5%'') \<le> 1"
    using parseOccupancyRate_range [of "JStr ''42.5%''"] ln by simp
  moreover have "parseOccupancyRate (JStr ''42.5%'') = 425/1000"
    by (simp add: parseOccupancyRate_def ln)
  moreover have "parseOccupancyRate (JStr ''n/a'') = 0"
    using parseOccupancyRate_range [of JNull] no by blast
  ultimately show ?thesis using ln no by simp
qed

text \<open>
  The claim as stated fails: the number 150 and the string \<open>"150%"\<close> are accepted inputs
  and give 1.5.
\<close>

theorem parseOccupancyRate_range_counterexample:
  "parseOccupancyRate (JNum 150) = 3/2 \<and> \<not> (parseOccupancyRate (JNum 150) \<le> 1)
   \<and> parseOccupancyRate (JStr ''150%'') = 3/2 \<and> \<not> (parseOccupancyRate (JStr ''150%'') \<le> 1)"
  by (simp add: parse_defs)

text \<open>
  Claim C4, as amended. For a string, \<open>parseOccupancyRate\<close> divides the first numeric
  token by 100 whatever its size: the test \<open>> 1\<close> is made for numbers only.
\<close>

theorem parse_string_always_percent:
  "leading_number s = Some v \<Longrightarrow> parseOccupancyRate (JStr s) = v / 100"
  using leading_number_no_digit by (auto simp: parseOccupancyRate_def)

theorem parse_string_always_percent_witness:
  "leading_number ''0.5'' = Some (1/2) \<and> parseOccupancyRate (JStr ''0.5'') = (1/2) / 100
   \<and> leading_number ''85%'' = Some 85 \<and> parseOccupancyRate (JStr ''85%'') = 85 / 100"
proof -
  have ln: "leading_number ''0.5'' = Some (1/2)" "leading_number ''85%'' = Some 85"
    by (simp_all add: parse_defs)
  show ?thesis
    using parse_string_always_percent [OF ln(1)] parse_string_always_percent [OF ln(2)] ln
    by simp
qed

text \<open>
  The claim as stated fails at \<open>"0.5"\<close>: the token is not greater than 1, and the result is
  0.005, not 0.5.
\<close>

theorem parse_string_decimal_counterexample:
  "leading_number ''0.5'' = Some (1/2) \<and> \<not> ((1/2 :: rat) > 1)
   \<and> parseOccupancyRate (JStr ''0.5'') = 1/200 \<and> parseOccupancyRate (JStr ''0.5'') \<noteq> 1/2"
  by (simp add: parse_defs)

section \<open>The history read from the ledger\<close>

text \<open>
  \<open>priceHistory\<close> is the list of the price records of the ledger in ledger order. The
  writers put the changes of the current run in front (\<open>saveChanges_writes\<close> below), so
  its first element comes from the most recent run that recorded both prices.
\<close>

lemma analyze_entry_priceHistory:
  "priceHistory_of (analyze_entry m entry) u = priceHistory_of m u @ ledger_prices u [entry]"
  by (auto simp: analyze_entry_def priceHistory_of_def ledger_prices_def List.map_filter_simps
      price_record_def add_prices_def add_occupancy_def update_lastUpdate_def new_stats_def Let_def
      split: option.splits)

lemma ledger_prices_append:
  "ledger_prices u (xs @ ys) = ledger_prices u xs @ ledger_prices u ys"
  by (simp add: ledger_prices_def map_filter_def)

lemma foldl_analyze_priceHistory:
  "priceHistory_of (foldl analyze_entry m entries) u = priceHistory_of m u @ ledger_prices u entries"
proof (induction entries arbitrary: m)
  case Nil
  show ?case by (simp add: ledger_prices_def List.map_filter_simps)
next
  case (Cons entry entries)
  have "ledger_prices u (entry # entries) = ledger_prices u [entry] @ ledger_prices u entries"
    using ledger_prices_append [of u "[entry]" entries] by simp
  then show ?case by (simp add: Cons.IH analyze_entry_priceHistory)
qed

lemma initialize_priceHistory:
  assumes "files fsys (LogFile (logFile c)) = Some (SingleRun run)"
  shows "priceHistory_of (propertyStats (initialize c fsys)) u = ledger_prices u (changes_array run)"
proof -
  have "propertyStats (initialize c fsys) = foldl analyze_entry Map.empty (changes_array run)"
    using assms by (simp add: initialize_def analyzeHistoricalData_def)
  moreover have "priceHistory_of Map.empty u = []"
    by (simp add: priceHistory_of_def)
  ultimately show ?thesis
    using foldl_analyze_priceHistory [of Map.empty "changes_array run" u] by simp
qed

section \<open>Strategy and price calculation\<close>

lemma getPropertyStrategy_with_stats:
  "propertyStats e propertyUrl = Some stats \<Longrightarrow>
   getPropertyStrategy clk e propertyUrl occ \<in> {''increase'', ''decrease'', ''hold''}"
  by (simp add: getPropertyStrategy_def Let_def)

lemma switch_strategy_known:
  "strat \<in> {''increase'', ''decrease'', ''hold''} \<Longrightarrow>
   \<exists>pct osc. switch_strategy c dow strat o7 o30 w inc lastOsc = Some (pct, osc)"
  by (auto simp: switch_strategy_def Let_def)

lemma store_adjustment_priceHistory:
  "propertyStats e u = Some stats \<Longrightarrow>
   \<exists>stats'. propertyStats (store_adjustment clk e u strat pct pt cur adj occ) u = Some stats'
      \<and> priceHistory stats' = priceHistory stats"
  by (simp add: store_adjustment_def Let_def)

lemma floor_rule_le:
  "propertyStats e u = Some stats \<Longrightarrow> priceHistory stats = recent # rest \<Longrightarrow>
   floor_rule e u ''min'' p \<le> minAllowedPrice recent"
  by (simp add: floor_rule_def)

text \<open>
  Claim C1. \<open>priceHistory\<close> holds the price records of the ledger in ledger order, and the
  ledger is written most recent first, so its first element \<open>priceHistory[0]\<close> is the
  record the code calls recent. For a property that has statistics with such a record,
  every min-price computation returns at most \<open>round (0.8 * B)\<close>, where \<open>B\<close> is the
  after-value of the base price of that record, whatever the strategy, the occupancy and
  the current price are.
\<close>

theorem min_price_floor:
  assumes stats: "propertyStats e propertyUrl = Some stats"
      and hist: "priceHistory stats = recentPrices # rest"
  shows "fst (calculateAdjustedPrice clk e propertyUrl currentPrice occ ''min'')
           \<le> of_int (round (after (ph_basePrice recentPrices) * (8/10)))"
proof -
  let ?strat = "getPropertyStrategy clk e propertyUrl occ"
  from stats have "?strat \<in> {''increase'', ''decrease'', ''hold''}"
    by (rule getPropertyStrategy_with_stats)
  then obtain pct osc where sw:
    "switch_strategy (cfg e) (dayOfWeek clk) ?strat
       (parseOccupancyRate (occ_7_day occ)) (parseOccupancyRate (occ_30_day occ))
       (weightedOcc (the_weights (cfg e)) (parseOccupancyRate (occ_7_day occ))
          (parseOccupancyRate (occ_30_day occ)) (parseOccupancyRate (occ_60_day occ)))
       (trailing_increase clk ''min'' (adjustmentHistory stats))
       (lastOscillationDirection stats) = Some (pct, osc)"
    using switch_strategy_known by blast
  let ?e1 = "if osc then store_oscillation e propertyUrl pct else e"
  obtain stats1 where s1: "propertyStats ?e1 propertyUrl = Some stats1"
    and h1: "priceHistory stats1 = priceHistory stats"
    using stats by (cases osc) (simp_all add: store_oscillation_def)
  let ?e2 = "store_adjustment clk ?e1 propertyUrl ?strat pct ''min'' currentPrice
               (adjusted currentPrice pct) occ"
  from store_adjustment_priceHistory [OF s1]
  obtain stats2 where s2: "propertyStats ?e2 propertyUrl = Some stats2"
    and h2: "priceHistory stats2 = priceHistory stats1" by blast
  have res: "fst (calculateAdjustedPrice clk e propertyUrl currentPrice occ ''min'')
          = floor_rule ?e2 propertyUrl ''min'' (adjusted currentPrice pct)"
    using stats sw by (simp add: calculateAdjustedPrice_def Let_def)
  have "floor_rule ?e2 propertyUrl ''min'' (adjusted currentPrice pct) \<le> minAllowedPrice recentPrices"
    using s2 h2 h1 hist by (intro floor_rule_le) auto
  with res show ?thesis by (simp add: minAllowedPrice_def)
qed

text \<open>
  At 90% occupancy the min price 90 would rise by 2.4% to 92; the ledger's base price is
  100, and 80 is returned.
\<close>

theorem min_price_floor_witness:
  "propertyStats ex_engine ''p'' = Some ex_stats \<and> priceHistory ex_stats = [ex_prices]
   \<and> fst (calculateAdjustedPrice ex_clock ex_engine ''p'' 90 (ex_occ (9/10) (8/10) (75/100)) ''min'')
        \<le> 80
   \<and> adjusted 90 (24/10) = 92"
proof -
  have h1: "propertyStats ex_engine ''p'' = Some ex_stats" by (simp add: ex_engine_def)
  have h2: "priceHistory ex_stats = ex_prices # []" by (simp add: ex_stats_def)
  have b: "of_int (round (after (ph_basePrice ex_prices) * (8/10))) = (80::rat)"
    by (simp add: ex_prices_def round_eval)
  have a: "adjusted 90 (24/10) = 92" by (simp add: adjusted_def round_eval)
  have "fst (calculateAdjustedPrice ex_clock ex_engine ''p'' 90 (ex_occ (9/10) (8/10) (75/100)) ''min'')
          \<le> 80"
    using min_price_floor [OF h1 h2, of ex_clock 90 "ex_occ (9/10) (8/10) (75/100)"]
    by (simp only: b)
  then show ?thesis using h1 h2 a by simp
qed

text \<open>
  Claim C10. For a property with no entry in \<open>propertyStats\<close>, \<open>calculateAdjustedPrice\<close>
  leaves the engine as it was (no adjustment history, no change of the current run, no
  oscillation direction), and returns the rounded adjusted price without the floor clamp:
  the price computed from a trailing increase of 0 and no previous oscillation (the
  current price itself when the configured strategy is not one of the three).
\<close>

theorem cold_start_frame:
  assumes "propertyStats e propertyUrl = None"
  shows "snd (calculateAdjustedPrice clk e propertyUrl currentPrice occ priceType) = e
     \<and> fst (calculateAdjustedPrice clk e propertyUrl currentPrice occ priceType) =
        (case switch_strategy (cfg e) (dayOfWeek clk) (getPropertyStrategy clk e propertyUrl occ)
                (parseOccupancyRate (occ_7_day occ)) (parseOccupancyRate (occ_30_day occ))
                (weightedOcc (the_weights (cfg e)) (parseOccupancyRate (occ_7_day occ))
                   (parseOccupancyRate (occ_30_day occ)) (parseOccupancyRate (occ_60_day occ)))
                0 None of
           None \<Rightarrow> currentPrice
         | Some (pct, osc) \<Rightarrow> of_int (round (currentPrice + currentPrice * (pct / 100))))"
  using assms
  by (simp add: calculateAdjustedPrice_def Let_def store_oscillation_def store_adjustment_def
      floor_rule_def adjusted_def split: option.splits prod.splits)

text \<open>The scenario of the specification: 150 at 90% occupancy becomes 154.\<close>

theorem cold_start_frame_witness:
  "propertyStats cold_engine ''p'' = None
   \<and> snd (calculateAdjustedPrice ex_clock cold_engine ''p'' 150 (ex_occ (9/10) (8/10) (75/100)) ''min'')
       = cold_engine
   \<and> fst (calculateAdjustedPrice ex_clock cold_engine ''p'' 150 (ex_occ (9/10) (8/10) (75/100)) ''min'')
       = 154"
proof -
  have h: "propertyStats cold_engine ''p'' = None" by (simp add: cold_engine_def)
  have sw: "switch_strategy (cfg cold_engine) (dayOfWeek ex_clock)
              (getPropertyStrategy ex_clock cold_engine ''p'' (ex_occ (9/10) (8/10) (75/100)))
              (parseOccupancyRate (occ_7_day (ex_occ (9/10) (8/10) (75/100))))
              (parseOccupancyRate (occ_30_day (ex_occ (9/10) (8/10) (75/100))))
              (weightedOcc (the_weights (cfg cold_engine))
                 (parseOccupancyRate (occ_7_day (ex_occ (9/10) (8/10) (75/100))))
                 (parseOccupancyRate (occ_30_day (ex_occ (9/10) (8/10) (75/100))))
                 (parseOccupancyRate (occ_60_day (ex_occ (9/10) (8/10) (75/100)))))
              0 None = Some (24/10, False)"
    by (simp add: ex_defs calc_defs Let_def)
  have r: "of_int (round (150 + 150 * ((24/10) / 100 :: rat))) = (154::rat)"
    by (simp add: round_eval)
  have "snd (calculateAdjustedPrice ex_clock cold_engine ''p'' 150 (ex_occ (9/10) (8/10) (75/100)) ''min'')
       = cold_engine
   \<and> fst (calculateAdjustedPrice ex_clock cold_engine ''p'' 150 (ex_occ (9/10) (8/10) (75/100)) ''min'')
       = 154"
    using cold_start_frame [OF h, of ex_clock 150 "ex_occ (9/10) (8/10) (75/100)" "''min''"]
    by (simp only: sw option.case prod.case r)
  then show ?thesis using h by simp
qed

subsection \<open>The anti-whiplash guard\<close>

text \<open>
  Every record with strategy \<open>decrease\<close> that the engine builds from the ledger, and
  every record it appends in the \<open>decrease\<close> branch with a positive configured
  percentage, is a decrease adjustment.
\<close>

lemma strategy_of_changes_decrease:
  "strategy_of_changes minPct basePct = ''decrease'' \<Longrightarrow> minPct < 0 \<or> basePct < 0"
  by (auto simp: strategy_of_changes_def split: if_splits)

lemma decrease_branch_negative:
  "0 < decrease_percentage c \<Longrightarrow> decrease_branch c ths wOcc o7 o30 < 0"
  by (simp add: decrease_branch_def)

lemma new_record_is_decrease:
  "pct < 0 \<Longrightarrow> pt = ''min'' \<or> pt = ''base'' \<Longrightarrow> is_decrease (new_record clk ''decrease'' pct pt)"
  by (auto simp: is_decrease_def new_record_def)






subsection \<open>What is recorded when the floor clamp fires\<close>




section \<open>The ledger writers\<close>

lemma saveChangesToLog_trims:
  assumes "files fsys (LogFile lf) = Some (SingleRun run)" "\<not> write_fails fsys (LogFile lf)"
  shows "files (saveChangesToLog tod fsys lf newChanges) (LogFile lf)
           = Some (SingleRun \<lparr>lastRun = tod,
                     changes = Some (take 1000 (newChanges @ changes_array run))\<rparr>)"
  using assms
  by (simp add: saveChangesToLog_def writeFile_def log_content_def trim_history_def
      maxHistoryEntries_def)

lemma saveChanges_writes:
  assumes "logFile (cfg e) \<noteq> []" "currentChanges e \<noteq> []"
    "files fsys (LogFile (logFile (cfg e))) = Some (SingleRun run)"
    "\<not> write_fails fsys (LogFile (logFile (cfg e)))"
  shows "files (fst (saveChanges clk fsys e)) (LogFile (logFile (cfg e)))
           = Some (SingleRun \<lparr>lastRun = today clk,
                     changes = Some (currentChanges e @ changes_array run)\<rparr>)"
  using assms by (simp add: saveChanges_def writeFile_def existing_run_def Let_def)

text \<open>
  Claim C5 at its failing input. \<open>saveChangesToLog\<close> keeps the newest 1000 entries
  (\<open>saveChangesToLog_trims\<close>), but \<open>saveChanges\<close>, the writer of the strategy module, does
  not trim: with 1000 entries in the ledger and one change in the current run it writes
  1001 entries.
\<close>

theorem saveChanges_grows_past_1000:
  "files (fst (saveChanges ex_clock full_fs busy_engine)) (LogFile ''pricelabs_changes.json'')
     = Some (SingleRun \<lparr>lastRun = 20000,
               changes = Some (ex_change\<lparr>date := 20000\<rparr> # replicate 1000 ex_change)\<rparr>)
   \<and> length (ex_change\<lparr>date := 20000\<rparr> # replicate 1000 ex_change) = 1001"
proof -
  have "logFile (cfg busy_engine) = ''pricelabs_changes.json''"
    by (simp add: busy_engine_def ex_engine_def ex_config_def)
  moreover have "currentChanges busy_engine = [ex_change\<lparr>date := 20000\<rparr>]"
    by (simp add: busy_engine_def)
  moreover have "files full_fs (LogFile ''pricelabs_changes.json'')
      = Some (SingleRun \<lparr>lastRun = 19990, changes = Some (replicate 1000 ex_change)\<rparr>)"
    by (simp add: full_fs_def full_ledger_def)
  moreover have "\<not> write_fails full_fs (LogFile ''pricelabs_changes.json'')"
    by (simp add: full_fs_def)
  moreover have "today ex_clock = 20000" by (simp add: today_def ex_clock_def day_ms_def)
  ultimately show ?thesis
    using saveChanges_writes [of busy_engine full_fs _ ex_clock]
    by (simp add: changes_array_def)
qed

lemma saveChanges_write_failure:
  assumes "write_fails fsys (LogFile (logFile (cfg e)))"
  shows "saveChanges clk fsys e = (fsys, e)"
  using assms by (simp add: saveChanges_def writeFile_def Let_def)

lemma saveChangesToLog_backup:
  assumes "write_fails fsys (LogFile lf)" "\<not> write_fails fsys (Backup lf tod)"
  shows "files (saveChangesToLog tod fsys lf newChanges) (Backup lf tod)
           = Some (SingleRun \<lparr>lastRun = tod, changes = Some newChanges\<rparr>)"
  using assms by (simp add: saveChangesToLog_def writeFile_def)

text \<open>
  Claim C8 at its failing input. Both writers catch a failed write. \<open>saveChangesToLog\<close>
  then writes the backup file with the changes of the current run
  (\<open>saveChangesToLog_backup\<close>); \<open>saveChanges\<close> writes nothing: the file system is as it
  was and no backup file exists.
\<close>

theorem saveChanges_no_backup:
  "write_fails failing_fs (LogFile (logFile (cfg busy_engine)))
   \<and> currentChanges busy_engine \<noteq> []
   \<and> saveChanges ex_clock failing_fs busy_engine = (failing_fs, busy_engine)
   \<and> files (fst (saveChanges ex_clock failing_fs busy_engine))
        (Backup (logFile (cfg busy_engine)) (today ex_clock)) = None"
proof -
  have w: "write_fails failing_fs (LogFile (logFile (cfg busy_engine)))"
    by (simp add: failing_fs_def busy_engine_def ex_engine_def ex_config_def)
  have "files failing_fs (Backup (logFile (cfg busy_engine)) (today ex_clock)) = None"
    by (simp add: failing_fs_def)
  then show ?thesis
    using w saveChanges_write_failure [OF w, of ex_clock] by (simp add: busy_engine_def)
qed

section \<open>Sequences of calls on one property\<close>


lemma calc_step_stats:
  assumes stats: "propertyStats e u = Some stats"
      and comp: "computed_percentage clk e u occ pt = Some (pct, osc)"
  shows "propertyStats (snd (calculateAdjustedPrice clk e u cur occ pt)) u =
           Some (stats\<lparr>lastOscillationDirection :=
                          (if osc then Some pct else lastOscillationDirection stats),
                        adjustmentHistory := adjustmentHistory stats @
                          [new_record clk (getPropertyStrategy clk e u occ) pct pt]\<rparr>)"
    and "cfg (snd (calculateAdjustedPrice clk e u cur occ pt)) = cfg e"
  using stats comp
  by (cases osc; simp add: calculateAdjustedPrice_def computed_percentage_def Let_def
      store_oscillation_def store_adjustment_def new_record_def)+













lemma computed_oscillation:
  assumes stats: "propertyStats e u = Some stats"
      and br: "takes_oscillation_branch clk e u occ"
      and nc: "\<not> hold_cap_interferes clk e u pt"
  shows "computed_percentage clk e u occ pt =
           Some (raw_oscillation (cfg e) (dayOfWeek clk) (lastOscillationDirection stats), True)"
  using assms
  by (simp add: computed_percentage_def takes_oscillation_branch_def hold_cap_interferes_def
      switch_strategy_def oscillation_def Let_def)

lemma raw_oscillation_sign:
  assumes "0 < oscillationPercentage c"
  shows "raw_oscillation c dow None > 0"
    and "l > 0 \<Longrightarrow> raw_oscillation c dow (Some l) < 0"
    and "\<not> l > 0 \<Longrightarrow> raw_oscillation c dow (Some l) > 0"
  using assms by (simp_all add: raw_oscillation_def oscillationDirection_def Let_def)

lemma last_percentChange_step:
  assumes stats: "propertyStats e u = Some stats"
      and comp: "computed_percentage clk e u occ pt = Some (pct, osc)"
  shows "last_percentChange (snd (calculateAdjustedPrice clk e u cur occ pt)) u = Some pct"
  using calc_step_stats(1) [OF stats comp, of cur]
  by (simp add: last_percentChange_def new_record_def)

subsection \<open>The rolling cap on increases\<close>




subsection \<open>The alternation of hold oscillations\<close>

text \<open>
  Claim C7, as amended. For a property that has an entry in \<open>propertyStats\<close>, with a
  positive configured oscillation percentage, two consecutive \<open>calculateAdjustedPrice\<close>
  calls that both take the oscillation branch of \<open>hold\<close>, the 4.5% cap interfering in
  neither, record adjustment percentages of opposite sign; the first is positive when no
  oscillation direction was stored before.
\<close>

theorem oscillation_alternates:
  assumes stats: "propertyStats e propertyUrl = Some stats"
      and pos: "0 < oscillationPercentage (cfg e)"
      and c1: "calculateAdjustedPrice clk1 e propertyUrl cur1 occ1 pt1 = (p1, e1)"
      and c2: "calculateAdjustedPrice clk2 e1 propertyUrl cur2 occ2 pt2 = (p2, e2)"
      and b1: "takes_oscillation_branch clk1 e propertyUrl occ1"
      and b2: "takes_oscillation_branch clk2 e1 propertyUrl occ2"
      and n1: "\<not> hold_cap_interferes clk1 e propertyUrl pt1"
      and n2: "\<not> hold_cap_interferes clk2 e1 propertyUrl pt2"
  shows "\<exists>a1 a2. last_percentChange e1 propertyUrl = Some a1
           \<and> last_percentChange e2 propertyUrl = Some a2
           \<and> ((a1 > 0 \<and> a2 < 0) \<or> (a1 < 0 \<and> a2 > 0))
           \<and> (lastOscillationDirection stats = None \<longrightarrow> a1 > 0)"
proof -
  define a1 where "a1 = raw_oscillation (cfg e) (dayOfWeek clk1) (lastOscillationDirection stats)"
  define a2 where "a2 = raw_oscillation (cfg e) (dayOfWeek clk2) (Some a1)"
  have e1: "e1 = snd (calculateAdjustedPrice clk1 e propertyUrl cur1 occ1 pt1)"
    by (simp add: c1)
  have e2: "e2 = snd (calculateAdjustedPrice clk2 e1 propertyUrl cur2 occ2 pt2)"
    by (simp add: c2)
  have comp1: "computed_percentage clk1 e propertyUrl occ1 pt1 = Some (a1, True)"
    unfolding a1_def by (rule computed_oscillation [OF stats b1 n1])
  define stats1 where "stats1 = stats\<lparr>lastOscillationDirection := Some a1,
      adjustmentHistory := adjustmentHistory stats @
        [new_record clk1 (getPropertyStrategy clk1 e propertyUrl occ1) a1 pt1]\<rparr>"
  have s1: "propertyStats e1 propertyUrl = Some stats1" and cfg1: "cfg e1 = cfg e"
    using calc_step_stats [OF stats comp1, of cur1] by (simp_all add: e1 stats1_def)
  have l1: "last_percentChange e1 propertyUrl = Some a1"
    unfolding e1 by (rule last_percentChange_step [OF stats comp1])
  have "computed_percentage clk2 e1 propertyUrl occ2 pt2 =
          Some (raw_oscillation (cfg e1) (dayOfWeek clk2) (lastOscillationDirection stats1), True)"
    by (rule computed_oscillation [OF s1 b2 n2])
  then have comp2: "computed_percentage clk2 e1 propertyUrl occ2 pt2 = Some (a2, True)"
    by (simp add: a2_def cfg1 stats1_def)
  have l2: "last_percentChange e2 propertyUrl = Some a2"
    unfolding e2 by (rule last_percentChange_step [OF s1 comp2])
  have nz: "a1 > 0 \<or> a1 < 0"
  proof (cases "lastOscillationDirection stats")
    case None
    then show ?thesis unfolding a1_def using raw_oscillation_sign(1) [OF pos] by simp
  next
    case (Some l)
    then show ?thesis unfolding a1_def
      using raw_oscillation_sign(2,3) [OF pos, of l "dayOfWeek clk1"] by (cases "l > 0") simp_all
  qed
  have opp: "(a1 > 0 \<and> a2 < 0) \<or> (a1 < 0 \<and> a2 > 0)"
    using nz raw_oscillation_sign(2,3) [OF pos, of a1 "dayOfWeek clk2"] unfolding a2_def by auto
  have first: "lastOscillationDirection stats = None \<longrightarrow> a1 > 0"
    unfolding a1_def using raw_oscillation_sign(1) [OF pos] by simp
  show ?thesis using l1 l2 opp first by (intro exI [of _ a1] exI [of _ a2]) simp
qed

text \<open>At 60% occupancy on a Friday: the min price moves by +1%, then the base price by -1%.\<close>

theorem oscillation_alternates_witness:
  "propertyStats ex_engine ''p'' = Some ex_stats
   \<and> 0 < oscillationPercentage (cfg ex_engine)
   \<and> takes_oscillation_branch ex_clock ex_engine ''p'' hold_occ
   \<and> takes_oscillation_branch ex_clock osc_engine ''p'' hold_occ
   \<and> \<not> hold_cap_interferes ex_clock ex_engine ''p'' ''min''
   \<and> \<not> hold_cap_interferes ex_clock osc_engine ''p'' ''base''
   \<and> last_percentChange osc_engine ''p'' = Some 1
   \<and> (\<exists>a2. last_percentChange
              (snd (calculateAdjustedPrice ex_clock osc_engine ''p'' 100 hold_occ ''base'')) ''p''
            = Some a2 \<and> a2 < 0)"
proof -
  have e1: "osc_engine = ex_engine\<lparr>
     propertyStats := [''p'' \<mapsto> ex_stats\<lparr>lastOscillationDirection := Some 1,
        adjustmentHistory :=
          [\<lparr>adj_date = 20000, adj_strategy = ''hold'', percentChange = Some 1,
            minPricePercentChange = 1, basePricePercentChange = 0\<rparr>]\<rparr>],
     currentChanges := [\<lparr>url = ''p'', date = 20000, occupancy = Some hold_occ,
        minPrice = Some \<lparr>before = 70, after = 71\<rparr>, basePrice = None, error = None\<rparr>]\<rparr>"
    unfolding osc_engine_def by (simp add: ex_defs calc_defs Let_def round_eval)
  have h: "propertyStats ex_engine ''p'' = Some ex_stats" by (simp add: ex_engine_def)
  have pos: "0 < oscillationPercentage (cfg ex_engine)"
    by (simp add: ex_engine_def ex_config_def)
  have c1: "calculateAdjustedPrice ex_clock ex_engine ''p'' 70 hold_occ ''min''
              = (fst (calculateAdjustedPrice ex_clock ex_engine ''p'' 70 hold_occ ''min''), osc_engine)"
    by (simp add: osc_engine_def)
  have c2: "calculateAdjustedPrice ex_clock osc_engine ''p'' 100 hold_occ ''base''
              = (fst (calculateAdjustedPrice ex_clock osc_engine ''p'' 100 hold_occ ''base''),
                 snd (calculateAdjustedPrice ex_clock osc_engine ''p'' 100 hold_occ ''base''))"
    by simp
  have b1: "takes_oscillation_branch ex_clock ex_engine ''p'' hold_occ"
    by (simp add: ex_defs calc_defs Let_def)
  have b2: "takes_oscillation_branch ex_clock osc_engine ''p'' hold_occ"
    unfolding e1 by (simp add: ex_defs calc_defs Let_def)
  have n1: "\<not> hold_cap_interferes ex_clock ex_engine ''p'' ''min''"
    by (simp add: ex_defs calc_defs Let_def)
  have n2: "\<not> hold_cap_interferes ex_clock osc_engine ''p'' ''base''"
    unfolding e1 by (simp add: ex_defs calc_defs Let_def)
  have l1: "last_percentChange osc_engine ''p'' = Some 1"
    unfolding e1 by (simp add: ex_defs last_percentChange_def)
  from oscillation_alternates [OF h pos c1 c2 b1 b2 n1 n2]
  obtain a1 a2 where "last_percentChange osc_engine ''p'' = Some a1"
    and l2: "last_percentChange
              (snd (calculateAdjustedPrice ex_clock osc_engine ''p'' 100 hold_occ ''base'')) ''p''
            = Some a2"
    and "(a1 > 0 \<and> a2 < 0) \<or> (a1 < 0 \<and> a2 > 0)"
    by blast
  with l1 have "a2 < 0" by simp
  with l2 show ?thesis using h pos b1 b2 n1 n2 l1 by blast
qed

text \<open>
  The claim as stated fails for a property with no entry in \<open>propertyStats\<close>: no direction
  is stored, so two consecutive calls in the oscillation branch both move the price up
  by 1%.
\<close>

theorem oscillation_cold_start_counterexample:
  "propertyStats cold_engine ''p'' = None
   \<and> takes_oscillation_branch ex_clock cold_engine ''p'' hold_occ
   \<and> \<not> hold_cap_interferes ex_clock cold_engine ''p'' ''base''
   \<and> computed_percentage ex_clock cold_engine ''p'' hold_occ ''base'' = Some (1, True)
   \<and> calculateAdjustedPrice ex_clock cold_engine ''p'' 100 hold_occ ''base'' = (101, cold_engine)
   \<and> calculateAdjustedPrice ex_clock cold_engine ''p'' 101 hold_occ ''base'' = (102, cold_engine)"
  by (simp add: ex_defs calc_defs Let_def round_eval)

end
